theory Spec2Isabelle
  imports Main "HOL-Library.Sublist" "HOL-Library.AList"
begin

section \<open>Strings\<close>

text \<open>
  A Python \<open>str\<close> is modelled as a \<open>string\<close> holding its UTF-8 bytes. The patterns the
  adapter searches for (\<open>sh.\<close>, \<open>sz.\<close>, \<open>.\<close>, the leading digits) are ASCII, and an ASCII
  byte never occurs inside the encoding of another code point, so searching and replacing
  them on the bytes is the same as on the code points.
\<close>

text \<open>
  \<open>s.replace(old, new)\<close>: every non-overlapping occurrence of \<open>old\<close>, found from the left,
  is replaced by \<open>new\<close>; with an empty \<open>old\<close> Python puts \<open>new\<close> before every character and
  at the end.
\<close>

fun str_replace :: "string \<Rightarrow> string \<Rightarrow> string \<Rightarrow> string" where
  "str_replace [] new s = new @ concat (map (\<lambda>c. c # new) s)"
| "str_replace (a # old) new [] = []"
| "str_replace (a # old) new (c # cs) =
     (if prefix (a # old) (c # cs)
      then new @ str_replace (a # old) new (drop (length old) cs)
      else c # str_replace (a # old) new cs)"

text \<open>\<open>s.startswith(p)\<close> is \<^const>\<open>prefix\<close>; \<open>p in s\<close> for strings is \<^const>\<open>sublist\<close>.\<close>

section \<open>Symbol normalization\<close>

text \<open>
  \<open>WindProvider._normalize_symbol\<close>. The logger calls are left out: they only write to the
  external sink.
\<close>

definition normalize_symbol :: "string \<Rightarrow> string" where
  "normalize_symbol original_symbol =
     (let symbol = str_replace ''sz.'' '''' (str_replace ''sh.'' '''' original_symbol)
      in if CHR ''.'' \<in> set symbol then symbol
         else if prefix ''6'' symbol then symbol @ ''.SH''
         else if prefix ''0'' symbol \<or> prefix ''3'' symbol then symbol @ ''.SZ''
         else if prefix ''8'' symbol then symbol @ ''.BJ''
         else symbol @ ''.SZ'')"

subsection \<open>The normalization as the specification words it\<close>

text \<open>
  The specification strips a market prefix only at the start of the string, and picks the
  suffix from the leading character. These definitions follow its words; they are
  compared with \<^const>\<open>normalize_symbol\<close> below.
\<close>

definition strip_prefix_spec :: "string \<Rightarrow> string \<Rightarrow> string" where
  "strip_prefix_spec p s = (if prefix p s then drop (length p) s else s)"

definition strip_market_prefixes_spec :: "string \<Rightarrow> string" where
  "strip_market_prefixes_spec s = strip_prefix_spec ''sz.'' (strip_prefix_spec ''sh.'' s)"

definition market_suffix_spec :: "string \<Rightarrow> string" where
  "market_suffix_spec s =
     (case s of
        [] \<Rightarrow> ''.SZ''
      | c # _ \<Rightarrow>
          if c = CHR ''6'' then ''.SH''
          else if c = CHR ''0'' \<or> c = CHR ''3'' then ''.SZ''
          else if c = CHR ''8'' then ''.BJ''
          else ''.SZ'')"

definition normalize_symbol_spec :: "string \<Rightarrow> string" where
  "normalize_symbol_spec s =
     (let t = strip_market_prefixes_spec s
      in if CHR ''.'' \<in> set t then t else t @ market_suffix_spec t)"

section \<open>Values, exceptions and tables\<close>

text \<open>
  The exceptions the adapter can meet. \<open>VendorError\<close> stands for any exception raised inside
  the vendor SDK or the cache manager; the others are raised by Python or pandas.
\<close>

datatype exn =
  ValueError | KeyError | AttributeError | NameError | TypeError | ReError | VendorError

text \<open>
  The values found in a vendor payload: a string, a number, a date object, or a missing
  value (\<open>None\<close> or NaN). Numbers and dates are kept opaque.
\<close>

datatype cell = S string | Num int | Date int | NA

text \<open>
  A pandas \<open>DataFrame\<close>: the name of its index, the row labels, and the columns in order,
  each a label with one value per row. Labels may repeat, as pandas allows. The columns
  hold Python objects (dtype \<open>object\<close>), as after the transposition of a payload.
\<close>

record frame =
  index_name :: "string option"
  index :: "cell list"
  columns :: "(string \<times> cell list) list"

text \<open>\<open>pd.DataFrame()\<close>\<close>

definition empty_frame :: frame where
  "empty_frame = \<lparr>index_name = None, index = [], columns = []\<rparr>"

text \<open>\<open>df.empty\<close>: an axis of length zero.\<close>

definition frame_empty :: "frame \<Rightarrow> bool" where
  "frame_empty f = (index f = [] \<or> columns f = [])"

definition column_labels :: "frame \<Rightarrow> string list" where
  "column_labels f = map fst (columns f)"

text \<open>\<open>label in df.columns\<close>\<close>

definition has_column :: "string \<Rightarrow> frame \<Rightarrow> bool" where
  "has_column c f = (c \<in> set (column_labels f))"

text \<open>
  \<open>df[label]\<close>: the columns carrying the label. One column is a \<open>Series\<close>, several are a
  \<open>DataFrame\<close>, none is a \<open>KeyError\<close>; the callers distinguish the three.
\<close>

definition select_columns :: "string \<Rightarrow> frame \<Rightarrow> cell list list" where
  "select_columns c f = map snd (filter (\<lambda>p. fst p = c) (columns f))"

definition range_index :: "nat \<Rightarrow> cell list" where
  "range_index n = map (\<lambda>i. Num (int i)) [0..<n]"

text \<open>
  \<open>pd.DataFrame(Data).T\<close> followed by \<open>.columns = Fields\<close>. \<open>Data\<close> holds one sequence per
  field; the frame built from it has one row per field, padded with missing values to the
  longest one, and the transposition has one column per field. Assigning the labels raises
  \<open>ValueError\<close> when their number is not the number of columns.
\<close>

definition payload_height :: "cell list list \<Rightarrow> nat" where
  "payload_height d = foldr (\<lambda>xs n. max (length xs) n) d 0"

definition pad_column :: "nat \<Rightarrow> cell list \<Rightarrow> cell list" where
  "pad_column n xs = xs @ replicate (n - length xs) NA"

definition transposed_frame :: "cell list list \<Rightarrow> string list \<Rightarrow> exn + frame" where
  "transposed_frame d labels =
     (if length labels \<noteq> length d then Inl ValueError
      else Inr \<lparr>index_name = None,
                index = range_index (payload_height d),
                columns = zip labels (map (pad_column (payload_height d)) d)\<rparr>)"

text \<open>\<open>df.index = labels\<close> raises \<open>ValueError\<close> on a length mismatch.\<close>

definition set_index :: "cell list \<Rightarrow> frame \<Rightarrow> exn + frame" where
  "set_index labels f =
     (if length labels \<noteq> length (index f) then Inl ValueError
      else Inr (f\<lparr>index := labels\<rparr>))"

text \<open>
  \<open>df[key] = value\<close>, where \<open>value\<close> is what \<open>df[old]\<close> selected. A single column is written
  to every column labelled \<open>key\<close>, or appended when there is none. A selection of several
  columns is accepted only when as many columns are labelled \<open>key\<close>; otherwise pandas
  raises \<open>ValueError\<close>.
\<close>

definition set_all :: "string \<Rightarrow> cell list \<Rightarrow> (string \<times> cell list) list \<Rightarrow> (string \<times> cell list) list" where
  "set_all key v cols = map (\<lambda>p. if fst p = key then (key, v) else p) cols"

fun set_each :: "string \<Rightarrow> cell list list \<Rightarrow> (string \<times> cell list) list \<Rightarrow> (string \<times> cell list) list" where
  "set_each key vs [] = []"
| "set_each key [] (p # cols) = p # cols"
| "set_each key (v # vs) (p # cols) =
     (if fst p = key then (key, v) # set_each key vs cols else p # set_each key (v # vs) cols)"

definition setitem :: "string \<Rightarrow> cell list list \<Rightarrow> frame \<Rightarrow> exn + frame" where
  "setitem key vs f =
     (case vs of
        [v] \<Rightarrow>
          Inr (if has_column key f then f\<lparr>columns := set_all key v (columns f)\<rparr>
               else f\<lparr>columns := columns f @ [(key, v)]\<rparr>)
      | _ \<Rightarrow>
          if \<not> has_column key f then Inl ValueError
          else if length (select_columns key f) \<noteq> length vs then Inl ValueError
          else Inr (f\<lparr>columns := set_each key vs (columns f)\<rparr>))"

text \<open>\<open>df[key] = scalar\<close>: the scalar is written to every row.\<close>

definition setitem_scalar :: "string \<Rightarrow> cell \<Rightarrow> frame \<Rightarrow> exn + frame" where
  "setitem_scalar key x f = setitem key [replicate (length (index f)) x] f"

text \<open>
  The renaming loop of the adapter:
  \<^verbatim>\<open>for old_col, new_col in column_mapping.items():
      if old_col in df.columns:
          df[new_col] = df[old_col]\<close>
\<close>

fun copy_columns :: "(string \<times> string) list \<Rightarrow> frame \<Rightarrow> exn + frame" where
  "copy_columns [] f = Inr f"
| "copy_columns ((old_col, new_col) # rest) f =
     (if has_column old_col f
      then (case setitem new_col (select_columns old_col f) f of
              Inl e \<Rightarrow> Inl e
            | Inr f' \<Rightarrow> copy_columns rest f')
      else copy_columns rest f)"

text \<open>
  \<open>df.reset_index(inplace=True)\<close>: the index becomes the first column, under the name of
  the index; pandas raises \<open>ValueError\<close> when a column of that name exists.
\<close>

definition reset_index :: "frame \<Rightarrow> exn + frame" where
  "reset_index f =
     (let name = (case index_name f of
                    Some n \<Rightarrow> n
                  | None \<Rightarrow> if has_column ''index'' f then ''level_0'' else ''index'')
      in if has_column name f then Inl ValueError
         else Inr \<lparr>index_name = None,
                   index = range_index (length (index f)),
                   columns = (name, index f) # columns f\<rparr>)"

text \<open>
  \<open>df.to_dict('records')\<close>: one dictionary per row. A dictionary is an association list in
  insertion order; a repeated key keeps its place and takes the later value.
\<close>

definition cell_at :: "cell list \<Rightarrow> nat \<Rightarrow> cell" where
  "cell_at v i = (if i < length v then v ! i else NA)"

definition dict_of :: "('k \<times> 'v) list \<Rightarrow> ('k \<times> 'v) list" where
  "dict_of kvs = fold (\<lambda>p d. AList.update (fst p) (snd p) d) kvs []"

definition to_dict_records :: "frame \<Rightarrow> (string \<times> cell) list list" where
  "to_dict_records f =
     map (\<lambda>i. dict_of (map (\<lambda>p. (fst p, cell_at (snd p) i)) (columns f))) [0..<length (index f)]"

text \<open>\<open>df[mask]\<close>: the rows whose flag is true.\<close>

definition keep :: "bool list \<Rightarrow> 'a list \<Rightarrow> 'a list" where
  "keep flags xs = map snd (filter fst (zip flags xs))"

definition filter_rows :: "bool list \<Rightarrow> frame \<Rightarrow> frame" where
  "filter_rows flags f =
     f\<lparr>index := keep flags (index f),
       columns := map (\<lambda>p. (fst p, keep flags (snd p))) (columns f)\<rparr>"

subsection \<open>The smallest and the largest value of a column\<close>

text \<open>
  \<open>series.min()\<close> and \<open>series.max()\<close> over Python objects compare the values with each
  other, after a missing value has been replaced by an infinite float. Strings compare with
  strings, dates with dates, numbers with numbers; a comparison across these kinds raises
  \<open>TypeError\<close>. The results themselves are only logged.
\<close>

definition cell_kind :: "cell \<Rightarrow> nat" where
  "cell_kind c = (case c of S _ \<Rightarrow> 0 | Date _ \<Rightarrow> 1 | Num _ \<Rightarrow> 2 | NA \<Rightarrow> 2)"

definition comparable :: "cell list \<Rightarrow> bool" where
  "comparable v = (case v of [] \<Rightarrow> True | c # cs \<Rightarrow> list_all (\<lambda>x. cell_kind x = cell_kind c) cs)"

subsection \<open>The string accessor of a column\<close>

text \<open>
  \<open>series.str\<close> is refused with \<open>AttributeError\<close> unless the values that are not missing
  are strings, or of mixed kinds, or there is none.
\<close>

definition is_S :: "cell \<Rightarrow> bool" where
  "is_S c = (case c of S _ \<Rightarrow> True | _ \<Rightarrow> False)"

definition is_Num :: "cell \<Rightarrow> bool" where
  "is_Num c = (case c of Num _ \<Rightarrow> True | _ \<Rightarrow> False)"

definition is_Date :: "cell \<Rightarrow> bool" where
  "is_Date c = (case c of Date _ \<Rightarrow> True | _ \<Rightarrow> False)"

definition str_accessor_ok :: "cell list \<Rightarrow> bool" where
  "str_accessor_ok v =
     (list_ex is_S v \<or> (list_ex is_Num v \<and> list_ex is_Date v)
      \<or> (\<not> list_ex is_Num v \<and> \<not> list_ex is_Date v))"

text \<open>\<open>series.str.split('.').str[0]\<close>: the part before the first \<open>.\<close>; missing for a value
  that is not a string.\<close>

definition before_dot :: "cell \<Rightarrow> cell" where
  "before_dot c = (case c of S t \<Rightarrow> S (takeWhile (\<lambda>x. x \<noteq> CHR ''.'') t) | _ \<Rightarrow> NA)"

text \<open>
  \<open>series.str.contains(keyword, na=False)\<close> compiles the keyword as a regular expression
  (the default \<open>regex=True\<close>) and searches every string with it; a value that is not a
  string gives \<open>False\<close>. Of Python's \<open>re\<close> two facts are modelled: a pattern free of the
  special characters matches exactly where it occurs as a substring, and a pattern that
  starts with a repetition operator is rejected (\<open>nothing to repeat\<close>). Every other
  pattern is handed to the engine the environment supplies.
\<close>

definition regex_special :: "char list" where
  "regex_special = ''.^$*+?{}[]|()'' @ [CHR 0x5C]"

definition regex_plain :: "string \<Rightarrow> bool" where
  "regex_plain pat = list_all (\<lambda>c. c \<notin> set regex_special) pat"

definition re_compile :: "(string \<Rightarrow> exn + (string \<Rightarrow> bool)) \<Rightarrow> string \<Rightarrow> exn + (string \<Rightarrow> bool)" where
  "re_compile engine pat =
     (if regex_plain pat then Inr (sublist pat)
      else if prefix ''*'' pat \<or> prefix ''+'' pat \<or> prefix ''?'' pat then Inl ReError
      else engine pat)"

definition cell_matches :: "(string \<Rightarrow> bool) \<Rightarrow> cell \<Rightarrow> bool" where
  "cell_matches m c = (case c of S t \<Rightarrow> m t | _ \<Rightarrow> False)"

definition column_contains ::
  "(string \<Rightarrow> exn + (string \<Rightarrow> bool)) \<Rightarrow> string \<Rightarrow> string \<Rightarrow> frame \<Rightarrow> exn + bool list" where
  "column_contains engine keyword label f =
     (case select_columns label f of
        [] \<Rightarrow> Inl KeyError
      | [v] \<Rightarrow>
          if str_accessor_ok v
          then (case re_compile engine keyword of
                  Inl e \<Rightarrow> Inl e
                | Inr m \<Rightarrow> Inr (map (cell_matches m) v))
          else Inl AttributeError
      | _ \<Rightarrow> Inl AttributeError)"

text \<open>
  \<open>text.strip()\<close> is empty exactly when the text consists of white space: the ASCII
  control and space characters, and the other Unicode spaces in their UTF-8 encoding.
\<close>

definition space1 :: "char \<Rightarrow> bool" where
  "space1 c = (c \<in> set [CHR 0x09, CHR 0x0A, CHR 0x0B, CHR 0x0C, CHR 0x0D,
                         CHR 0x1C, CHR 0x1D, CHR 0x1E, CHR 0x1F, CHR 0x20])"

definition space2 :: "char \<Rightarrow> char \<Rightarrow> bool" where
  "space2 c d = (c = CHR 0xC2 \<and> (d = CHR 0x85 \<or> d = CHR 0xA0))"

definition space3 :: "char \<Rightarrow> char \<Rightarrow> char \<Rightarrow> bool" where
  "space3 c d e =
     ([c, d, e] \<in> set ([[CHR 0xE1, CHR 0x9A, CHR 0x80], [CHR 0xE2, CHR 0x80, CHR 0xA8],
                         [CHR 0xE2, CHR 0x80, CHR 0xA9], [CHR 0xE2, CHR 0x80, CHR 0xAF],
                         [CHR 0xE2, CHR 0x81, CHR 0x9F], [CHR 0xE3, CHR 0x80, CHR 0x80]]
                        @ map (\<lambda>x. [CHR 0xE2, CHR 0x80, x])
                            [CHR 0x80, CHR 0x81, CHR 0x82, CHR 0x83, CHR 0x84, CHR 0x85,
                             CHR 0x86, CHR 0x87, CHR 0x88, CHR 0x89, CHR 0x8A]))"

fun all_whitespace :: "string \<Rightarrow> bool" where
  "all_whitespace [] = True"
| "all_whitespace [c] = space1 c"
| "all_whitespace [c, d] = (if space1 c then all_whitespace [d] else space2 c d)"
| "all_whitespace (c # d # e # cs) =
     (if space1 c then all_whitespace (d # e # cs)
      else if space2 c d then all_whitespace (e # cs)
      else space3 c d e \<and> all_whitespace cs)"

section \<open>The vendor session\<close>

text \<open>
  What a vendor query returns: the status code, the columnar data (or \<open>None\<close>), the field
  names and, for a time series, the timestamps.
\<close>

record payload =
  ErrorCode :: int
  Data :: "cell list list option"
  Fields :: "string list"
  Times :: "cell list"

text \<open>What the cache manager can hand back from \<open>load_stock_data\<close>.\<close>

datatype cached = CachedNone | CachedFrame frame | CachedText string | CachedOther

text \<open>
  The calls that leave the adapter, with their arguments. \<open>Wset\<close>, \<open>Wsd\<close> and \<open>Wss\<close> are the
  remote data calls.
\<close>

datatype call =
    IsConnected
  | Start
  | Wset string string
  | Wsd string string string string string
  | Wss string string string
  | FindCached string nat
  | LoadCached string
  | SaveCached string frame string


text \<open>
  The environment of the adapter: whether \<open>WindPy\<close> could be imported, whether \<open>w\<close> has an
  \<open>isconnected\<close> attribute, and the answer of every external call, which may depend on all
  the calls made so far (the last element of the history is the call being answered). An
  answer is an exception or a value. The clock is read through three formatted dates.
\<close>

record env =
  WIND_AVAILABLE :: bool
  has_isconnected :: bool
  isconnected :: "call list \<Rightarrow> exn + bool"
  start :: "call list \<Rightarrow> exn + int"
  wset :: "call list \<Rightarrow> exn + payload"
  wsd :: "call list \<Rightarrow> exn + payload"
  wss :: "call list \<Rightarrow> exn + payload"
  find_cached_stock_data :: "call list \<Rightarrow> exn + string option"
  load_stock_data :: "call list \<Rightarrow> exn + cached"
  save_stock_data :: "call list \<Rightarrow> exn + string"
  regex_engine :: "string \<Rightarrow> exn + (string \<Rightarrow> bool)"
  today :: string
  today_compact :: string
  year_ago :: string

text \<open>
  The state of a \<open>WindProvider\<close>: its attributes \<open>connected\<close>, \<open>enable_cache\<close> and whether
  \<open>cache_manager\<close> is set, together with the history of external calls.
\<close>

record session =
  connected :: bool
  enable_cache :: bool
  cache_manager :: bool
  calls :: "call list"

definition remote :: "(call list \<Rightarrow> 'a) \<Rightarrow> call \<Rightarrow> session \<Rightarrow> 'a \<times> session" where
  "remote answer c s = (answer (calls s @ [c]), s\<lparr>calls := calls s @ [c]\<rparr>)"

text \<open>
  A call through the module-level name \<open>w\<close>, which is unbound when the import of \<open>WindPy\<close>
  failed: looking it up raises \<open>NameError\<close> before anything is called.
\<close>

definition wind_call :: "env \<Rightarrow> (call list \<Rightarrow> exn + 'a) \<Rightarrow> call \<Rightarrow> session \<Rightarrow> (exn + 'a) \<times> session" where
  "wind_call E answer c s = (if WIND_AVAILABLE E then remote answer c s else (Inl NameError, s))"

text \<open>\<open>WindProvider._connect_if_needed\<close>\<close>

definition connect_if_needed :: "env \<Rightarrow> session \<Rightarrow> bool \<times> session" where
  "connect_if_needed E s =
     (if connected s then (True, s)
      else if \<not> WIND_AVAILABLE E then (False, s)
      else
        (case (if has_isconnected E then remote (isconnected E) IsConnected s
               else (Inr False, s)) of
           (Inl e, s1) \<Rightarrow> (False, s1)
         | (Inr True, s1) \<Rightarrow> (True, s1\<lparr>connected := True\<rparr>)
         | (Inr False, s1) \<Rightarrow>
             (case remote (start E) Start s1 of
                (Inl e, s2) \<Rightarrow> (False, s2)
              | (Inr code, s2) \<Rightarrow>
                  if code = 0 then (True, s2\<lparr>connected := True\<rparr>) else (False, s2))))"

text \<open>\<open>WindProvider._ensure_connection\<close>\<close>

definition ensure_connection :: "env \<Rightarrow> session \<Rightarrow> bool \<times> session" where
  "ensure_connection E s =
     (if \<not> connected s then connect_if_needed E s
      else if WIND_AVAILABLE E \<and> has_isconnected E then
        (case remote (isconnected E) IsConnected s of
           (Inl e, s1) \<Rightarrow> connect_if_needed E (s1\<lparr>connected := False\<rparr>)
         | (Inr True, s1) \<Rightarrow> (True, s1)
         | (Inr False, s1) \<Rightarrow> connect_if_needed E (s1\<lparr>connected := False\<rparr>))
      else (True, s))"

section \<open>The fetch operations\<close>

subsection \<open>The symbol list\<close>

text \<open>\<open>get_stock_list\<close> returns a table, or the text the cache held.\<close>

datatype listing = Table frame | Text string

text \<open>The cache lookup at the head of \<open>get_stock_list\<close>; \<open>None\<close> means: go on to the vendor.\<close>

definition cached_stock_list :: "env \<Rightarrow> session \<Rightarrow> (exn + listing option) \<times> session" where
  "cached_stock_list E s =
     (if \<not> enable_cache s then (Inr None, s)
      else if \<not> cache_manager s then (Inl AttributeError, s)
      else
        (case remote (find_cached_stock_data E) (FindCached ''wind_stock_list'' 24) s of
           (Inl e, s1) \<Rightarrow> (Inl e, s1)
         | (Inr None, s1) \<Rightarrow> (Inr None, s1)
         | (Inr (Some cache_key), s1) \<Rightarrow>
             if cache_key = [] then (Inr None, s1)
             else
               (case remote (load_stock_data E) (LoadCached cache_key) s1 of
                  (Inl e, s2) \<Rightarrow> (Inl e, s2)
                | (Inr (CachedFrame f), s2) \<Rightarrow>
                    (Inr (if frame_empty f then None else Some (Table f)), s2)
                | (Inr (CachedText t), s2) \<Rightarrow>
                    (Inr (if all_whitespace t then None else Some (Text t)), s2)
                | (Inr _, s2) \<Rightarrow> (Inr None, s2))))"

definition stock_list_column_mapping :: "(string \<times> string) list" where
  "stock_list_column_mapping =
     [(''WIND_CODE'', ''ts_code''), (''SEC_NAME'', ''name''), (''TRADE_STATUS'', ''list_status''),
      (''IPO_DATE'', ''list_date''), (''PROVINCE'', ''area''), (''SEC_TYPE'', ''market''),
      (''LISTING_BOARD'', ''industry''), (''EXCHANGE'', ''exchange'')]"

text \<open>
  \<^verbatim>\<open>if 'ts_code' in stock_list.columns:
      stock_list['symbol'] = stock_list['ts_code'].str.split('.').str[0]\<close>
  A repeated \<open>ts_code\<close> label selects a frame, which has no \<open>str\<close> attribute.
\<close>

definition add_symbol_column :: "frame \<Rightarrow> exn + frame" where
  "add_symbol_column f =
     (if has_column ''ts_code'' f
      then (case select_columns ''ts_code'' f of
              [v] \<Rightarrow> if str_accessor_ok v then setitem ''symbol'' [map before_dot v] f
                     else Inl AttributeError
            | _ \<Rightarrow> Inl AttributeError)
      else Inr f)"

text \<open>Saving to the cache; an exception of the cache manager is logged and dropped.\<close>

definition save_to_cache :: "env \<Rightarrow> string \<Rightarrow> frame \<Rightarrow> session \<Rightarrow> session" where
  "save_to_cache E key f s =
     (if enable_cache s \<and> cache_manager s
      then snd (remote (save_stock_data E) (SaveCached key f ''wind'') s)
      else s)"

text \<open>
  The table made from the answer of \<open>wset\<close>; \<open>pd.DataFrame(None)\<close> is the empty frame.
  \<open>None\<close> stands for the branch that returns the empty table without caching (the frame is
  empty).
\<close>

definition stock_list_table :: "payload \<Rightarrow> exn + frame option" where
  "stock_list_table wind_data =
     (case transposed_frame (case Data wind_data of None \<Rightarrow> [] | Some d \<Rightarrow> d) (Fields wind_data) of
        Inl e \<Rightarrow> Inl e
      | Inr stock_list \<Rightarrow>
          if frame_empty stock_list then Inr None
          else (case copy_columns stock_list_column_mapping stock_list of
                  Inl e \<Rightarrow> Inl e
                | Inr renamed \<Rightarrow>
                    (case add_symbol_column renamed of
                       Inl e \<Rightarrow> Inl e
                     | Inr with_symbol \<Rightarrow> Inr (Some with_symbol))))"

text \<open>The \<open>try\<close> block of \<open>get_stock_list\<close>.\<close>

definition get_stock_list_try :: "env \<Rightarrow> session \<Rightarrow> (exn + listing) \<times> session" where
  "get_stock_list_try E s =
     (case cached_stock_list E s of
        (Inl e, s1) \<Rightarrow> (Inl e, s1)
      | (Inr (Some hit), s1) \<Rightarrow> (Inr hit, s1)
      | (Inr None, s1) \<Rightarrow>
          (case wind_call E (wset E)
                  (Wset ''listedsecuritygeneralview''
                     ''sectorid=a001010100000000;field=wind_code,sec_name,trade_status,ipo_date,province,sec_type,listing_board,exchange'')
                  s1 of
             (Inl e, s2) \<Rightarrow> (Inl e, s2)
           | (Inr wind_data, s2) \<Rightarrow>
               if ErrorCode wind_data \<noteq> 0 then (Inr (Table empty_frame), s2)
               else (case stock_list_table wind_data of
                       Inl e \<Rightarrow> (Inl e, s2)
                     | Inr None \<Rightarrow> (Inr (Table empty_frame), s2)
                     | Inr (Some stock_list) \<Rightarrow>
                         (Inr (Table stock_list),
                          save_to_cache E ''wind_stock_list'' stock_list s2))))"

text \<open>\<open>WindProvider.get_stock_list\<close>\<close>

definition get_stock_list :: "env \<Rightarrow> session \<Rightarrow> (exn + listing) \<times> session" where
  "get_stock_list E s =
     (case ensure_connection E s of
        (False, s0) \<Rightarrow> (Inr (Table empty_frame), s0)
      | (True, s0) \<Rightarrow>
          (case get_stock_list_try E s0 of
             (Inl e, s1) \<Rightarrow> (Inr (Table empty_frame), s1)
           | (Inr r, s1) \<Rightarrow> (Inr r, s1)))"

subsection \<open>Daily bars\<close>

definition daily_column_mapping :: "(string \<times> string) list" where
  "daily_column_mapping =
     [(''OPEN'', ''open''), (''HIGH'', ''high''), (''LOW'', ''low''), (''CLOSE'', ''close''),
      (''PRE_CLOSE'', ''pre_close''), (''CHG'', ''change''), (''PCT_CHG'', ''pct_chg''),
      (''VOLUME'', ''vol''), (''AMT'', ''amount'')]"

text \<open>
  The reshaping of a daily-bars payload whose status is zero: transpose, label the columns,
  index by the timestamps, add the canonical columns and \<open>ts_code\<close>, and turn the index
  into the column \<open>trade_date\<close>. For a table that is not empty, the range of \<open>trade_date\<close>
  is then computed for the log, inside the \<open>try\<close> block:
  \<^verbatim>\<open>if not data.empty:
      if 'trade_date' in data.columns:
          date_range = f"{data['trade_date'].min()} ... {data['trade_date'].max()}"\<close>
  \<open>None\<close> stands for the branch that returns the empty table without caching (no data).
\<close>

definition daily_table :: "string \<Rightarrow> payload \<Rightarrow> exn + frame option" where
  "daily_table wind_code wind_data =
     (case Data wind_data of
        None \<Rightarrow> Inr None
      | Some d \<Rightarrow>
          if d = [] then Inr None
          else
            (case transposed_frame d (Fields wind_data) of
               Inl e \<Rightarrow> Inl e
             | Inr labelled \<Rightarrow>
                 (case set_index (Times wind_data) labelled of
                    Inl e \<Rightarrow> Inl e
                  | Inr indexed \<Rightarrow>
                      (case copy_columns daily_column_mapping
                              (indexed\<lparr>index_name := Some ''trade_date''\<rparr>) of
                         Inl e \<Rightarrow> Inl e
                       | Inr renamed \<Rightarrow>
                           (case setitem_scalar ''ts_code'' (S wind_code) renamed of
                              Inl e \<Rightarrow> Inl e
                            | Inr coded \<Rightarrow>
                                (case reset_index coded of
                                   Inl e \<Rightarrow> Inl e
                                 | Inr data \<Rightarrow>
                                     if \<not> frame_empty data then
                                       if has_column ''trade_date'' data then
                                         if list_all comparable (select_columns ''trade_date'' data)
                                         then Inr (Some data)
                                         else Inl TypeError
                                       else Inr (Some data)
                                     else Inr (Some data)))))))"



subsection \<open>Company metadata\<close>

text \<open>
  The values of the metadata mapping: a text made by the adapter, a value taken from the
  first row of the answer, or the several values a repeated field label selects.
\<close>

datatype info = Str string | Val cell | Vals "cell list"

text \<open>The two literals of the source that are not ASCII, in UTF-8: the prefix of the
  placeholder name and the placeholder for an unknown field.\<close>

definition stock_word :: string where
  "stock_word = [CHR 0xE8, CHR 0x82, CHR 0xA1, CHR 0xE7, CHR 0xA5, CHR 0xA8]"

definition unknown_word :: string where
  "unknown_word = [CHR 0xE6, CHR 0x9C, CHR 0xAA, CHR 0xE7, CHR 0x9F, CHR 0xA5]"

text \<open>The mapping returned when no metadata could be fetched.\<close>

definition default_info :: "string \<Rightarrow> string \<Rightarrow> (string \<times> info) list" where
  "default_info symbol source =
     [(''symbol'', Str symbol), (''name'', Str (stock_word @ symbol)), (''source'', Str source)]"

definition first_cell :: "cell list \<Rightarrow> cell" where
  "first_cell v = (case v of [] \<Rightarrow> NA | x # _ \<Rightarrow> x)"

text \<open>\<open>df.iloc[0].get(label, default)\<close>\<close>

definition row_get :: "frame \<Rightarrow> string \<Rightarrow> info \<Rightarrow> info" where
  "row_get df label dflt =
     (case select_columns label df of
        [] \<Rightarrow> dflt
      | [v] \<Rightarrow> Val (first_cell v)
      | vs \<Rightarrow> Vals (map first_cell vs))"

definition info_of_row :: "string \<Rightarrow> frame \<Rightarrow> (string \<times> info) list" where
  "info_of_row symbol df =
     [(''symbol'', Str symbol),
      (''code'', row_get df ''TRADE_CODE'' (Str symbol)),
      (''name'', row_get df ''SEC_NAME'' (Str (stock_word @ symbol))),
      (''area'', row_get df ''PROVINCE'' (Str unknown_word)),
      (''industry'', row_get df ''WICSNAME2024'' (Str unknown_word)),
      (''market'', row_get df ''MKT'' (Str unknown_word)),
      (''list_date'', row_get df ''IPO_DATE'' (Str unknown_word)),
      (''source'', Str ''wind'')]"

text \<open>The \<open>try\<close> block of \<open>get_stock_info\<close>.\<close>

definition get_stock_info_try ::
  "env \<Rightarrow> session \<Rightarrow> string \<Rightarrow> (exn + (string \<times> info) list) \<times> session" where
  "get_stock_info_try E s symbol =
     (let wind_code = normalize_symbol symbol
      in case wind_call E (wsd E)
                (Wsd wind_code ''trade_code,sec_name,province,wicsname2024,mkt,ipo_date''
                   ''2024-01-01'' ''2024-01-02'' '''')
                s of
           (Inl e, s1) \<Rightarrow> (Inl e, s1)
         | (Inr wind_data, s1) \<Rightarrow>
             (case (ErrorCode wind_data = 0, Data wind_data) of
                (True, Some d) \<Rightarrow>
                  (case transposed_frame d (Fields wind_data) of
                     Inl e \<Rightarrow> (Inl e, s1)
                   | Inr df \<Rightarrow>
                       if frame_empty df then (Inr (default_info symbol ''wind''), s1)
                       else (Inr (info_of_row symbol df), s1))
              | _ \<Rightarrow> (Inr (default_info symbol ''wind''), s1)))"

text \<open>\<open>WindProvider.get_stock_info\<close>\<close>

definition get_stock_info ::
  "env \<Rightarrow> session \<Rightarrow> string \<Rightarrow> (exn + (string \<times> info) list) \<times> session" where
  "get_stock_info E s symbol =
     (case ensure_connection E s of
        (False, s0) \<Rightarrow> (Inr (default_info symbol ''wind_error''), s0)
      | (True, s0) \<Rightarrow>
          (case get_stock_info_try E s0 symbol of
             (Inl e, s1) \<Rightarrow> (Inr (default_info symbol ''wind_error''), s1)
           | (Inr result, s1) \<Rightarrow> (Inr result, s1)))"

subsection \<open>Financial statements\<close>

text \<open>
  What one statement contributes to the snapshot, from the answer of its \<open>wss\<close> call: the
  rows when the status is zero and the data is present, the empty sequence when the call
  raised, reported an error or could not be reshaped.
\<close>

definition statement_rows :: "exn + payload \<Rightarrow> (string \<times> cell) list list" where
  "statement_rows answer =
     (case answer of
        Inl e \<Rightarrow> []
      | Inr statement \<Rightarrow>
          (case (ErrorCode statement = 0, Data statement) of
             (True, Some d) \<Rightarrow>
               (case transposed_frame d (Fields statement) of
                  Inl e \<Rightarrow> []
                | Inr df \<Rightarrow> to_dict_records df)
           | _ \<Rightarrow> []))"

definition statement_options :: "string \<Rightarrow> string \<Rightarrow> string" where
  "statement_options current_date period =
     ''tradeDate='' @ current_date @ '';industryType=2;unit=1;rptDate='' @ period
       @ '';rptType=1;ShowBlank=0''"

definition balance_sheet_fields :: string where
  "balance_sheet_fields = ''trade_code,wicsname2024,tot_assets,tot_liab,wgsd_stkhldrs_eq''"

definition income_statement_fields :: string where
  "income_statement_fields =
     ''trade_code,wicsname2024,tot_oper_rev,tot_oper_cost,opprofit,tot_profit,net_profit_is''"

definition cash_flow_fields :: string where
  "cash_flow_fields =
     ''trade_code,wicsname2024,net_profit_cs,fin_exp_cs,cash_recp_sg_and_rs,cash_pay_goods_purch_serv_rec''"

text \<open>One of the three inner \<open>try\<close> blocks: the call and the entry it yields.\<close>

definition fetch_statement ::
  "env \<Rightarrow> string \<Rightarrow> string \<Rightarrow> string \<Rightarrow> session \<Rightarrow> (exn + payload) \<times> session" where
  "fetch_statement E wind_code field_names period s =
     wind_call E (wss E) (Wss wind_code field_names (statement_options (today_compact E) period)) s"

text \<open>
  The outer \<open>try\<close> block of \<open>get_financial_data\<close>. Outside the three inner handlers it
  normalizes the symbol, formats the date and stores the entries, none of which raises for
  a symbol that is a string; the block is modelled with the result type of a block that
  can raise, and its handler in \<open>get_financial_data\<close> returns the empty mapping.
\<close>

definition get_financial_data_try ::
  "env \<Rightarrow> session \<Rightarrow> string \<Rightarrow> string \<Rightarrow> (exn + (string \<times> (string \<times> cell) list list) list) \<times> session" where
  "get_financial_data_try E s symbol period =
     (let wind_code = normalize_symbol symbol;
          (balance_sheet, s1) = fetch_statement E wind_code balance_sheet_fields period s;
          financials1 = AList.update ''balance_sheet'' (statement_rows balance_sheet) [];
          (income_statement, s2) = fetch_statement E wind_code income_statement_fields period s1;
          financials2 = AList.update ''income_statement'' (statement_rows income_statement) financials1;
          (cash_flow, s3) = fetch_statement E wind_code cash_flow_fields period s2;
          financials3 = AList.update ''cash_flow'' (statement_rows cash_flow) financials2
      in (Inr financials3, s3))"

text \<open>\<open>WindProvider.get_financial_data\<close>\<close>

definition get_financial_data ::
  "env \<Rightarrow> session \<Rightarrow> string \<Rightarrow> string \<Rightarrow> (exn + (string \<times> (string \<times> cell) list list) list) \<times> session" where
  "get_financial_data E s symbol period =
     (case ensure_connection E s of
        (False, s0) \<Rightarrow> (Inr [], s0)
      | (True, s0) \<Rightarrow>
          (case get_financial_data_try E s0 symbol period of
             (Inl e, s1) \<Rightarrow> (Inr [], s1)
           | (Inr financials, s1) \<Rightarrow> (Inr financials, s1)))"

subsection \<open>Keyword search\<close>

text \<open>
  The mask of \<open>search_stocks\<close>: the three columns are searched in the order \<open>name\<close>, \<open>symbol\<close>,
  \<open>ts_code\<close> and the results are joined by \<open>|\<close>.
\<close>

definition search_mask ::
  "(string \<Rightarrow> exn + (string \<Rightarrow> bool)) \<Rightarrow> string \<Rightarrow> frame \<Rightarrow> exn + bool list" where
  "search_mask engine keyword f =
     (case column_contains engine keyword ''name'' f of
        Inl e \<Rightarrow> Inl e
      | Inr by_name \<Rightarrow>
          (case column_contains engine keyword ''symbol'' f of
             Inl e \<Rightarrow> Inl e
           | Inr by_symbol \<Rightarrow>
               (case column_contains engine keyword ''ts_code'' f of
                  Inl e \<Rightarrow> Inl e
                | Inr by_code \<Rightarrow>
                    Inr (map (\<lambda>t. fst t \<or> fst (snd t) \<or> snd (snd t))
                           (zip by_name (zip by_symbol by_code))))))"

text \<open>The \<open>try\<close> block of \<open>search_stocks\<close>. A text from the cache has no attribute \<open>empty\<close>.\<close>

definition search_stocks_try :: "env \<Rightarrow> session \<Rightarrow> string \<Rightarrow> (exn + frame) \<times> session" where
  "search_stocks_try E s keyword =
     (case get_stock_list E s of
        (Inl e, s1) \<Rightarrow> (Inl e, s1)
      | (Inr (Text t), s1) \<Rightarrow> (Inl AttributeError, s1)
      | (Inr (Table stock_list), s1) \<Rightarrow>
          if frame_empty stock_list then (Inr empty_frame, s1)
          else (case search_mask (regex_engine E) keyword stock_list of
                  Inl e \<Rightarrow> (Inl e, s1)
                | Inr flags \<Rightarrow> (Inr (filter_rows flags stock_list), s1)))"

text \<open>\<open>WindProvider.search_stocks\<close>\<close>

definition search_stocks :: "env \<Rightarrow> session \<Rightarrow> string \<Rightarrow> (exn + frame) \<times> session" where
  "search_stocks E s keyword =
     (case ensure_connection E s of
        (False, s0) \<Rightarrow> (Inr empty_frame, s0)
      | (True, s0) \<Rightarrow>
          (case search_stocks_try E s0 keyword of
             (Inl e, s1) \<Rightarrow> (Inr empty_frame, s1)
           | (Inr results, s1) \<Rightarrow> (Inr results, s1)))"

subsection \<open>The daily table as the specification words it\<close>




subsection \<open>The financial snapshot as the specification words it\<close>

text \<open>
  A statement succeeded when its call returned, with status zero, data, and as many field
  names as sequences; it failed otherwise (an exception of the call or of the reshaping, a
  non-zero status, missing data). The fetched row mappings give, for every observation,
  the value of each field under the field's name. The entry of a statement is the fetched
  rows when it succeeded and the empty sequence when it failed.
\<close>

definition statement_ok :: "exn + payload \<Rightarrow> bool" where
  "statement_ok answer =
     (case answer of
        Inl e \<Rightarrow> False
      | Inr statement \<Rightarrow>
          ErrorCode statement = 0
          \<and> (case Data statement of
                None \<Rightarrow> False
              | Some d \<Rightarrow> length (Fields statement) = length d))"

definition fetched_rows :: "payload \<Rightarrow> (string \<times> cell) list list" where
  "fetched_rows statement =
     (case Data statement of
        None \<Rightarrow> []
      | Some d \<Rightarrow>
          map (\<lambda>i. dict_of (zip (Fields statement) (map (\<lambda>xs. cell_at xs i) d)))
            [0..<payload_height d])"

definition entry_spec :: "exn + payload \<Rightarrow> (string \<times> cell) list list" where
  "entry_spec answer =
     (case answer of
        Inl e \<Rightarrow> []
      | Inr statement \<Rightarrow> if statement_ok answer then fetched_rows statement else [])"

section \<open>Scenarios\<close>

text \<open>
  Concrete environments and sessions, on which the operations are evaluated below. A new
  provider without cache; a terminal that is installed but refuses to start; a terminal
  that starts, and reports a connection once it has been started. No keyword searched
  for below reaches the regular-expression engine of the environment.
\<close>

definition fresh_session :: session where
  "fresh_session = \<lparr>connected = False, enable_cache = False, cache_manager = False, calls = []\<rparr>"

definition refusing_env :: env where
  "refusing_env =
     \<lparr>WIND_AVAILABLE = True, has_isconnected = True,
      isconnected = (\<lambda>h. Inr False), start = (\<lambda>h. Inr (- 40520007)),
      wset = (\<lambda>h. Inl VendorError), wsd = (\<lambda>h. Inl VendorError), wss = (\<lambda>h. Inl VendorError),
      find_cached_stock_data = (\<lambda>h. Inr None), load_stock_data = (\<lambda>h. Inr CachedNone),
      save_stock_data = (\<lambda>h. Inr ''''),
      regex_engine = (\<lambda>pat. Inl ReError),
      today = ''2024-06-28'', today_compact = ''20240628'', year_ago = ''2023-06-29''\<rparr>"

definition live_env :: env where
  "live_env = refusing_env\<lparr>start := (\<lambda>h. Inr 0), isconnected := (\<lambda>h. Inr (Start \<in> set h))\<rparr>"

text \<open>
  Three statements with three outcomes: the balance sheet comes back with an error status,
  the income statement with one row, and the cash-flow call raises.
\<close>

definition income_payload :: payload where
  "income_payload =
     \<lparr>ErrorCode = 0,
      Data = Some [[S ''600000''], [S ''Banks''], [Num 173], [Num 120], [Num 48], [Num 47], [Num 40]],
      Fields = [''TRADE_CODE'', ''WICSNAME2024'', ''TOT_OPER_REV'', ''TOT_OPER_COST'', ''OPPROFIT'',
                ''TOT_PROFIT'', ''NET_PROFIT_IS''],
      Times = [Date 20240628]\<rparr>"

definition error_payload :: payload where
  "error_payload = \<lparr>ErrorCode = - 40522017, Data = Some [[S ''quota exceeded'']], Fields = [], Times = []\<rparr>"

text \<open>A terminal that answers every time-series query with an error status.\<close>

definition erroring_env :: env where
  "erroring_env = live_env\<lparr>wsd := (\<lambda>h. Inr error_payload)\<rparr>"



text \<open>
  A terminal that answers the symbol-list query with two instruments; the name of the
  second starts with \<open>*ST\<close>, the exchanges' mark of a stock under special treatment.
\<close>

definition listing_payload :: payload where
  "listing_payload =
     \<lparr>ErrorCode = 0,
      Data = Some [[S ''000001.SZ'', S ''600221.SH''],
                   [S ''PAB'', S ''*ST HNA''],
                   [S ''L'', S ''L''],
                   [Date 19910403, Date 19991125],
                   [S ''Guangdong'', S ''Hainan''],
                   [S ''A'', S ''A''],
                   [S ''Main'', S ''Main''],
                   [S ''SZSE'', S ''SSE'']],
      Fields = [''WIND_CODE'', ''SEC_NAME'', ''TRADE_STATUS'', ''IPO_DATE'', ''PROVINCE'',
                ''SEC_TYPE'', ''LISTING_BOARD'', ''EXCHANGE''],
      Times = []\<rparr>"

definition listing_env :: env where
  "listing_env = live_env\<lparr>wset := (\<lambda>h. Inr listing_payload)\<rparr>"





definition clash_payload :: payload where
  "clash_payload =
     \<lparr>ErrorCode = 0, Data = Some [[Num 7], [Num 1050]], Fields = [''open'', ''OPEN''],
      Times = [Date 20240628]\<rparr>"

definition statements_answer :: "call list \<Rightarrow> exn + payload" where
  "statements_answer h =
     (case rev h of
        Wss code field_names options # _ \<Rightarrow>
          if field_names = balance_sheet_fields then Inr error_payload
          else if field_names = income_statement_fields then Inr income_payload
          else Inl VendorError
      | _ \<Rightarrow> Inl VendorError)"

definition statements_env :: env where
  "statements_env = live_env\<lparr>wss := statements_answer\<rparr>"

section \<open>Properties of the string operations\<close>

lemma str_replace_absent:
  "\<not> sublist (a # old) s \<Longrightarrow> str_replace (a # old) new s = s"
  by (induction s) (auto simp: sublist_Cons_right)

lemma sublist_needs_char:
  "c \<in> set p \<Longrightarrow> c \<notin> set s \<Longrightarrow> \<not> sublist p s"
  using set_mono_sublist by fastforce

lemma str_replace_no_dot:
  "CHR ''.'' \<in> set (a # old) \<Longrightarrow> CHR ''.'' \<notin> set s \<Longrightarrow> str_replace (a # old) new s = s"
  by (rule str_replace_absent) (rule sublist_needs_char)

lemma code_strip_eq_spec:
  assumes "CHR ''.'' \<notin> set (strip_market_prefixes_spec s)"
  shows "str_replace ''sz.'' '''' (str_replace ''sh.'' '''' s) = strip_market_prefixes_spec s"
proof (cases "prefix ''sh.'' s")
  case True
  then obtain r where s: "s = ''sh.'' @ r" by (auto simp: prefix_def)
  show ?thesis
  proof (cases "prefix ''sz.'' r")
    case True
    then obtain q where r: "r = ''sz.'' @ q" by (auto simp: prefix_def)
    have q: "CHR ''.'' \<notin> set q"
      using assms by (simp add: s r strip_market_prefixes_spec_def strip_prefix_spec_def)
    show ?thesis
      using q by (simp add: s r strip_market_prefixes_spec_def strip_prefix_spec_def str_replace_no_dot)
  next
    case False
    have q: "CHR ''.'' \<notin> set r"
      using assms False by (simp add: s strip_market_prefixes_spec_def strip_prefix_spec_def)
    show ?thesis
      using q False by (simp add: s strip_market_prefixes_spec_def strip_prefix_spec_def str_replace_no_dot)
  qed
next
  case False
  note nsh = this
  show ?thesis
  proof (cases "prefix ''sz.'' s")
    case True
    then obtain q where s: "s = ''sz.'' @ q" by (auto simp: prefix_def)
    have q: "CHR ''.'' \<notin> set q"
      using assms by (simp add: s strip_market_prefixes_spec_def strip_prefix_spec_def)
    show ?thesis
      using q by (simp add: s strip_market_prefixes_spec_def strip_prefix_spec_def str_replace_no_dot)
  next
    case False
    have q: "CHR ''.'' \<notin> set s"
      using assms False nsh by (simp add: strip_market_prefixes_spec_def strip_prefix_spec_def)
    show ?thesis
      using q False nsh by (simp add: strip_market_prefixes_spec_def strip_prefix_spec_def str_replace_no_dot)
  qed
qed

lemma market_suffix_spec_prefix:
  "market_suffix_spec t =
     (if prefix ''6'' t then ''.SH''
      else if prefix ''0'' t \<or> prefix ''3'' t then ''.SZ''
      else if prefix ''8'' t then ''.BJ'' else ''.SZ'')"
  by (cases t) (simp_all add: market_suffix_spec_def)

section \<open>Symbol normalization: bare codes\<close>

text \<open>
  Claim C2. When the string left after stripping the market prefixes has no \<open>.\<close>,
  \<open>_normalize_symbol\<close> returns that string followed by exactly one market suffix, chosen by
  its leading character: \<open>6\<close> gives \<open>.SH\<close>, \<open>0\<close> or \<open>3\<close> gives \<open>.SZ\<close>, \<open>8\<close> gives \<open>.BJ\<close>,
  anything else (also the empty string) gives \<open>.SZ\<close>. The function is a total HOL function,
  so it always produces an output, and the three examples of the specification hold.
  The stripping is stated with the prefix-only reading of the specification; on these
  inputs the code's \<open>replace\<close> does the same.
\<close>

theorem normalize_symbol_appends_suffix:
  "(CHR ''.'' \<notin> set (strip_market_prefixes_spec s) \<longrightarrow>
      normalize_symbol s =
        strip_market_prefixes_spec s @ market_suffix_spec (strip_market_prefixes_spec s))
   \<and> market_suffix_spec t \<in> {''.SH'', ''.SZ'', ''.BJ''}
   \<and> market_suffix_spec (CHR ''6'' # t) = ''.SH''
   \<and> market_suffix_spec (CHR ''0'' # t) = ''.SZ''
   \<and> market_suffix_spec (CHR ''3'' # t) = ''.SZ''
   \<and> market_suffix_spec (CHR ''8'' # t) = ''.BJ''
   \<and> (c \<notin> {CHR ''6'', CHR ''0'', CHR ''3'', CHR ''8''} \<longrightarrow> market_suffix_spec (c # t) = ''.SZ'')
   \<and> market_suffix_spec [] = ''.SZ''
   \<and> normalize_symbol ''000001'' = ''000001.SZ''
   \<and> normalize_symbol ''600000'' = ''600000.SH''
   \<and> normalize_symbol ''830001'' = ''830001.BJ''"
proof -
  have general: "normalize_symbol s =
        strip_market_prefixes_spec s @ market_suffix_spec (strip_market_prefixes_spec s)"
    if nd: "CHR ''.'' \<notin> set (strip_market_prefixes_spec s)"
    using nd
    by (simp add: normalize_symbol_def code_strip_eq_spec [OF nd] market_suffix_spec_prefix)
  have range: "market_suffix_spec t \<in> {''.SH'', ''.SZ'', ''.BJ''}"
    by (simp add: market_suffix_spec_def split: list.split)
  have ex: "normalize_symbol ''000001'' = ''000001.SZ''"
    "normalize_symbol ''600000'' = ''600000.SH''"
    "normalize_symbol ''830001'' = ''830001.BJ''"
    by (simp_all add: normalize_symbol_def)
  show ?thesis using general range ex by (simp add: market_suffix_spec_def)
qed

theorem normalize_symbol_appends_suffix_witness:
  "CHR ''.'' \<notin> set (strip_market_prefixes_spec ''sh.600000'')
   \<and> normalize_symbol ''sh.600000'' = ''600000.SH''
   \<and> CHR ''9'' \<notin> {CHR ''6'', CHR ''0'', CHR ''3'', CHR ''8''}
   \<and> market_suffix_spec ''900001'' = ''.SZ''"
  using normalize_symbol_appends_suffix [of "''sh.600000''" "''00001''" "CHR ''9''"]
  by (simp add: strip_market_prefixes_spec_def strip_prefix_spec_def market_suffix_spec_def)

lemma normalize_symbol_has_dot: "CHR ''.'' \<in> set (normalize_symbol s)"
  by (simp add: normalize_symbol_def Let_def)

lemma strip_absent:
  "\<not> sublist ''sh.'' s \<Longrightarrow> \<not> sublist ''sz.'' s \<Longrightarrow>
   str_replace ''sz.'' '''' (str_replace ''sh.'' '''' s) = s"
  by (simp add: str_replace_absent)

section \<open>Symbol normalization: qualified codes\<close>

text \<open>
  Claim C3, as stated, fails: \<open>sh.600000\<close> contains a \<open>.\<close> and is not returned unchanged,
  because the prefix is removed before the test for \<open>.\<close>.
\<close>

theorem normalize_symbol_qualified_counterexample:
  "CHR ''.'' \<in> set ''sh.600000'' \<and> normalize_symbol ''sh.600000'' \<noteq> ''sh.600000''"
  by (simp add: normalize_symbol_def)


text \<open>
  Claim C3, amended. An input that contains a \<open>.\<close> and no occurrence of \<open>sh.\<close> or \<open>sz.\<close>
  is returned unchanged.
\<close>

theorem normalize_symbol_qualified_identity:
  "CHR ''.'' \<in> set s \<Longrightarrow> \<not> sublist ''sh.'' s \<Longrightarrow> \<not> sublist ''sz.'' s \<Longrightarrow>
   normalize_symbol s = s"
  by (simp add: normalize_symbol_def strip_absent)

theorem normalize_symbol_qualified_identity_witness:
  "CHR ''.'' \<in> set ''000001.SZ'' \<and> \<not> sublist ''sh.'' ''000001.SZ''
   \<and> \<not> sublist ''sz.'' ''000001.SZ'' \<and> normalize_symbol ''000001.SZ'' = ''000001.SZ''"
  using normalize_symbol_qualified_identity [of "''000001.SZ''"]
  by (simp add: sublist_Cons_right)

section \<open>Symbol normalization: applying it twice\<close>

text \<open>
  Claim C9, as stated, fails. The input \<open>sh\<close> has no prefix to strip and no \<open>.\<close>, so it
  becomes \<open>sh.SZ\<close>, which starts with the prefix \<open>sh.\<close>; the second application strips it
  and appends a suffix again, giving \<open>SZ.SZ\<close>. The same happens with the prefix-only
  stripping of the specification. In \<open>6sh\<close> the appended suffix completes an occurrence of
  \<open>sh.\<close> inside the string: \<open>6sh.SH\<close> becomes \<open>6SH.SH\<close>.
\<close>

theorem normalize_symbol_idempotent_counterexample:
  "normalize_symbol ''sh'' = ''sh.SZ''
   \<and> normalize_symbol ''sh.SZ'' = ''SZ.SZ''
   \<and> normalize_symbol (normalize_symbol ''sh'') \<noteq> normalize_symbol ''sh''
   \<and> normalize_symbol_spec (normalize_symbol_spec ''sh'') \<noteq> normalize_symbol_spec ''sh''
   \<and> normalize_symbol (normalize_symbol ''6sh'') \<noteq> normalize_symbol ''6sh''"
  by (simp add: normalize_symbol_def normalize_symbol_spec_def strip_market_prefixes_spec_def
      strip_prefix_spec_def market_suffix_spec_def)


text \<open>
  Claim C9, amended. Every output contains a \<open>.\<close>; when the output of \<open>_normalize_symbol\<close>
  contains no occurrence of \<open>sh.\<close> or \<open>sz.\<close>, a second application returns it unchanged.
\<close>

theorem normalize_symbol_idempotent_when_clean:
  "\<not> sublist ''sh.'' (normalize_symbol s) \<Longrightarrow> \<not> sublist ''sz.'' (normalize_symbol s) \<Longrightarrow>
   normalize_symbol (normalize_symbol s) = normalize_symbol s"
  using normalize_symbol_has_dot [of s]
  by (simp add: normalize_symbol_def [of "normalize_symbol s"] strip_absent)

theorem normalize_symbol_idempotent_when_clean_witness:
  "\<not> sublist ''sh.'' (normalize_symbol ''sh.600000'')
   \<and> \<not> sublist ''sz.'' (normalize_symbol ''sh.600000'')
   \<and> normalize_symbol ''sh.600000'' = ''600000.SH''
   \<and> normalize_symbol (normalize_symbol ''sh.600000'') = ''600000.SH''"
proof -
  have v: "normalize_symbol ''sh.600000'' = ''600000.SH''"
    by (simp add: normalize_symbol_def)
  have a: "\<not> sublist ''sh.'' (normalize_symbol ''sh.600000'')"
    and b: "\<not> sublist ''sz.'' (normalize_symbol ''sh.600000'')"
    by (simp_all add: v sublist_Cons_right)
  show ?thesis
    using normalize_symbol_idempotent_when_clean [OF a b] a b v by simp
qed

section \<open>Symbol normalization: where the prefixes are removed\<close>

text \<open>
  Claim C4. The claim has \<open>sh.\<close> and \<open>sz.\<close> removed at the start of the input only. The
  code uses \<open>replace\<close>, which removes every occurrence: in \<open>600sh.000\<close> the inner \<open>sh.\<close> is
  removed and a suffix is appended, where the specification's prefix-only stripping
  returns the input unchanged. The example of the claim, \<open>sz.000001\<close>, holds.
\<close>

theorem normalize_symbol_inner_prefix_removed:
  "normalize_symbol ''600sh.000'' = ''600000.SH''
   \<and> normalize_symbol_spec ''600sh.000'' = ''600sh.000''
   \<and> normalize_symbol ''sz.000001'' = ''000001.SZ''"
  by (simp add: normalize_symbol_def normalize_symbol_spec_def strip_market_prefixes_spec_def
      strip_prefix_spec_def)

section \<open>Failure of the connection\<close>






section \<open>The financial snapshot\<close>

lemma cell_at_pad_column:
  "i < n \<Longrightarrow> cell_at (pad_column n xs) i = cell_at xs i"
  by (auto simp: cell_at_def pad_column_def nth_append)

lemma row_of_padded:
  "length labels = length d \<Longrightarrow> i < n \<Longrightarrow>
   map (\<lambda>p. (fst p, cell_at (snd p) i)) (zip labels (map (pad_column n) d))
     = zip labels (map (\<lambda>xs. cell_at xs i) d)"
proof (induction labels d rule: list_induct2)
  case Nil
  then show ?case by simp
next
  case (Cons l ls x xs)
  then show ?case by (simp add: cell_at_pad_column)
qed

lemma to_dict_records_transposed:
  assumes "length labels = length d"
  shows "transposed_frame d labels = Inr f \<Longrightarrow>
    to_dict_records f
      = map (\<lambda>i. dict_of (zip labels (map (\<lambda>xs. cell_at xs i) d))) [0..<payload_height d]"
  using assms
  by (auto simp: transposed_frame_def to_dict_records_def range_index_def row_of_padded)

lemma statement_rows_spec: "statement_rows answer = entry_spec answer"
proof (cases answer)
  case (Inl e)
  then show ?thesis by (simp add: statement_rows_def entry_spec_def)
next
  case (Inr p)
  show ?thesis
  proof (cases "Data p")
    case None
    then show ?thesis
      using Inr
      by (simp add: statement_rows_def entry_spec_def statement_ok_def split: bool.splits)
  next
    case (Some d)
    show ?thesis
    proof (cases "ErrorCode p = 0 \<and> length (Fields p) = length d")
      case True
      then obtain f where f: "transposed_frame d (Fields p) = Inr f"
        by (simp add: transposed_frame_def)
      show ?thesis
        using True Inr Some f to_dict_records_transposed [of "Fields p" d f]
        by (simp add: statement_rows_def entry_spec_def statement_ok_def fetched_rows_def)
    next
      case False
      then show ?thesis
        using Inr Some
        by (auto simp: statement_rows_def entry_spec_def statement_ok_def transposed_frame_def
            split: bool.splits)
    qed
  qed
qed


text \<open>
  Claim C5. With a live connection, whatever the three \<open>wss\<close> calls answer, the snapshot
  has the three entries, and each entry depends on the answer of its own call only: the
  fetched row mappings when that statement succeeded, the empty sequence when it failed.
\<close>

theorem financial_statements_independent:
  assumes "ensure_connection E s = (True, s0)"
    and "fetch_statement E (normalize_symbol symbol) balance_sheet_fields period s0 = (a1, s1)"
    and "fetch_statement E (normalize_symbol symbol) income_statement_fields period s1 = (a2, s2)"
    and "fetch_statement E (normalize_symbol symbol) cash_flow_fields period s2 = (a3, s3)"
  shows "get_financial_data E s symbol period
           = (Inr [(''balance_sheet'', entry_spec a1),
                   (''income_statement'', entry_spec a2),
                   (''cash_flow'', entry_spec a3)], s3)"
  using assms
  by (simp add: get_financial_data_def get_financial_data_try_def statement_rows_spec)


theorem financial_statements_independent_witness:
  "ensure_connection statements_env fresh_session
     = (True, fresh_session\<lparr>connected := True, calls := [IsConnected, Start]\<rparr>)
   \<and> \<not> statement_ok (Inr error_payload) \<and> statement_ok (Inr income_payload)
   \<and> \<not> statement_ok (Inl VendorError)
   \<and> fst (get_financial_data statements_env fresh_session ''600000'' ''20231231'')
       = Inr [(''balance_sheet'', []),
              (''income_statement'',
                 [[(''TRADE_CODE'', S ''600000''), (''WICSNAME2024'', S ''Banks''),
                   (''TOT_OPER_REV'', Num 173), (''TOT_OPER_COST'', Num 120),
                   (''OPPROFIT'', Num 48), (''TOT_PROFIT'', Num 47),
                   (''NET_PROFIT_IS'', Num 40)]]),
              (''cash_flow'', [])]"
proof -
  let ?s0 = "fresh_session\<lparr>connected := True, calls := [IsConnected, Start]\<rparr>"
  let ?opts = "statement_options ''20240628'' ''20231231''"
  let ?c1 = "Wss ''600000.SH'' balance_sheet_fields ?opts"
  let ?c2 = "Wss ''600000.SH'' income_statement_fields ?opts"
  let ?c3 = "Wss ''600000.SH'' cash_flow_fields ?opts"
  have n: "normalize_symbol ''600000'' = ''600000.SH''"
    by (simp add: normalize_symbol_def)
  have e: "ensure_connection statements_env fresh_session = (True, ?s0)"
    by (simp add: ensure_connection_def connect_if_needed_def remote_def statements_env_def
        live_env_def refusing_env_def fresh_session_def)
  have neq: "income_statement_fields \<noteq> balance_sheet_fields"
    "cash_flow_fields \<noteq> balance_sheet_fields" "cash_flow_fields \<noteq> income_statement_fields"
    by (simp_all add: income_statement_fields_def balance_sheet_fields_def cash_flow_fields_def)
  have f1: "fetch_statement statements_env (normalize_symbol ''600000'') balance_sheet_fields
              ''20231231'' ?s0 = (Inr error_payload, ?s0\<lparr>calls := [IsConnected, Start, ?c1]\<rparr>)"
    by (simp add: n fetch_statement_def wind_call_def remote_def statements_env_def live_env_def
        refusing_env_def fresh_session_def statements_answer_def)
  have f2: "fetch_statement statements_env (normalize_symbol ''600000'') income_statement_fields
              ''20231231'' (?s0\<lparr>calls := [IsConnected, Start, ?c1]\<rparr>)
            = (Inr income_payload, ?s0\<lparr>calls := [IsConnected, Start, ?c1, ?c2]\<rparr>)"
    by (simp add: n neq fetch_statement_def wind_call_def remote_def statements_env_def live_env_def
        refusing_env_def fresh_session_def statements_answer_def)
  have f3: "fetch_statement statements_env (normalize_symbol ''600000'') cash_flow_fields
              ''20231231'' (?s0\<lparr>calls := [IsConnected, Start, ?c1, ?c2]\<rparr>)
            = (Inl VendorError, ?s0\<lparr>calls := [IsConnected, Start, ?c1, ?c2, ?c3]\<rparr>)"
    by (simp add: n neq fetch_statement_def wind_call_def remote_def statements_env_def live_env_def
        refusing_env_def fresh_session_def statements_answer_def)
  have r2: "fetched_rows income_payload =
     [[(''TRADE_CODE'', S ''600000''), (''WICSNAME2024'', S ''Banks''),
                   (''TOT_OPER_REV'', Num 173), (''TOT_OPER_COST'', Num 120),
                   (''OPPROFIT'', Num 48), (''TOT_PROFIT'', Num 47),
                   (''NET_PROFIT_IS'', Num 40)]]"
    by (simp add: fetched_rows_def income_payload_def payload_height_def dict_of_def cell_at_def)
  have ok: "\<not> statement_ok (Inr error_payload)" "statement_ok (Inr income_payload)"
    "\<not> statement_ok (Inl VendorError)"
    by (simp_all add: statement_ok_def error_payload_def income_payload_def)
  show ?thesis
    using financial_statements_independent [OF e f1 f2 f3] ok
    by (simp add: e entry_spec_def r2)
qed

lemma get_financial_data_try_keys:
  "\<exists>financials s'. get_financial_data_try E s0 symbol period = (Inr financials, s')
     \<and> map fst financials = [''balance_sheet'', ''income_statement'', ''cash_flow'']"
  by (auto simp: get_financial_data_try_def Let_def split: prod.splits)


text \<open>
  Claim C10. When the connection check fails, \<open>get_financial_data\<close> returns the mapping
  without keys; when it succeeds, the mapping has exactly the keys \<open>balance_sheet\<close>,
  \<open>income_statement\<close>, \<open>cash_flow\<close>. The outer handler, which would return the mapping
  without keys, is never entered: the outer \<open>try\<close> block always completes.
\<close>

theorem financial_data_shape:
  "(fst (ensure_connection E s) = False \<longrightarrow>
      fst (get_financial_data E s symbol period) = Inr [])
   \<and> (fst (ensure_connection E s) = True \<longrightarrow>
        (\<exists>financials. fst (get_financial_data E s symbol period) = Inr financials
           \<and> map fst financials = [''balance_sheet'', ''income_statement'', ''cash_flow'']))
   \<and> (\<exists>financials. fst (get_financial_data_try E s0 symbol period) = Inr financials)"
proof -
  obtain ok s1 where e: "ensure_connection E s = (ok, s1)"
    by (cases "ensure_connection E s") auto
  obtain financials s2 where t: "get_financial_data_try E s1 symbol period = (Inr financials, s2)"
    and k: "map fst financials = [''balance_sheet'', ''income_statement'', ''cash_flow'']"
    using get_financial_data_try_keys [of E s1 symbol period] by auto
  obtain financials' s3 where t': "get_financial_data_try E s0 symbol period = (Inr financials', s3)"
    using get_financial_data_try_keys [of E s0 symbol period] by auto
  show ?thesis
    using e t k t' by (cases ok) (simp_all add: get_financial_data_def)
qed

theorem financial_data_shape_witness:
  "fst (ensure_connection refusing_env fresh_session) = False
   \<and> fst (get_financial_data refusing_env fresh_session ''600000'' ''20231231'') = Inr []
   \<and> fst (ensure_connection live_env fresh_session) = True
   \<and> map fst (case fst (get_financial_data live_env fresh_session ''600000'' ''20231231'') of
                Inl e \<Rightarrow> [] | Inr financials \<Rightarrow> financials)
       = [''balance_sheet'', ''income_statement'', ''cash_flow'']"
proof -
  have a: "fst (ensure_connection refusing_env fresh_session) = False"
    by (simp add: ensure_connection_def connect_if_needed_def remote_def refusing_env_def
        fresh_session_def)
  have b: "fst (ensure_connection live_env fresh_session) = True"
    by (simp add: ensure_connection_def connect_if_needed_def remote_def live_env_def
        refusing_env_def fresh_session_def)
  show ?thesis
    using financial_data_shape [of refusing_env fresh_session "''600000''" "''20231231''" fresh_session]
      financial_data_shape [of live_env fresh_session "''600000''" "''20231231''" fresh_session]
      a b
    by auto
qed


section \<open>Company metadata on failure\<close>

text \<open>
  Claim C6, as stated, fails: when the connection cannot be established, the mapping has
  the three keys \<open>symbol\<close>, \<open>name\<close>, \<open>source\<close> and none of \<open>code\<close>, \<open>area\<close>, \<open>industry\<close>,
  \<open>market\<close>, \<open>list_date\<close>.
\<close>

theorem stock_info_failure_counterexample:
  "fst (ensure_connection refusing_env fresh_session) = False
   \<and> fst (get_stock_info refusing_env fresh_session ''000001'')
       = Inr [(''symbol'', Str ''000001''), (''name'', Str (stock_word @ ''000001'')),
              (''source'', Str ''wind_error'')]
   \<and> ''code'' \<notin> set (map fst [(''symbol'', Str ''000001''),
                                    (''name'', Str (stock_word @ ''000001'')),
                                    (''source'', Str ''wind_error'')])"
  by (simp add: get_stock_info_def default_info_def ensure_connection_def connect_if_needed_def
      remote_def refusing_env_def fresh_session_def)


text \<open>
  Claim C6, amended. On disconnection or a remote error \<open>get_stock_info\<close> returns, as a
  value, the mapping with exactly the keys \<open>symbol\<close>, \<open>name\<close>, \<open>source\<close>: the symbol as given,
  the placeholder name made from the symbol, and the source \<open>wind_error\<close> (disconnection,
  or an exception of the remote call) or \<open>wind\<close> (a non-zero status or missing data).
\<close>

theorem stock_info_failure_placeholder:
  "(fst (ensure_connection E s) = False \<longrightarrow>
      fst (get_stock_info E s symbol) = Inr (default_info symbol ''wind_error''))
   \<and> (ensure_connection E s = (True, s0)
        \<and> fst (wind_call E (wsd E)
                 (Wsd (normalize_symbol symbol)
                    ''trade_code,sec_name,province,wicsname2024,mkt,ipo_date''
                    ''2024-01-01'' ''2024-01-02'' '''') s0) = Inl e \<longrightarrow>
        fst (get_stock_info E s symbol) = Inr (default_info symbol ''wind_error''))
   \<and> (ensure_connection E s = (True, s0)
        \<and> fst (wind_call E (wsd E)
                 (Wsd (normalize_symbol symbol)
                    ''trade_code,sec_name,province,wicsname2024,mkt,ipo_date''
                    ''2024-01-01'' ''2024-01-02'' '''') s0) = Inr wind_data
        \<and> (ErrorCode wind_data \<noteq> 0 \<or> Data wind_data = None) \<longrightarrow>
        fst (get_stock_info E s symbol) = Inr (default_info symbol ''wind''))
   \<and> map fst (default_info symbol source) = [''symbol'', ''name'', ''source'']
   \<and> map_of (default_info symbol source) ''symbol'' = Some (Str symbol)
   \<and> map_of (default_info symbol source) ''name'' = Some (Str (stock_word @ symbol))
   \<and> map_of (default_info symbol source) ''source'' = Some (Str source)"
proof -
  have a: "fst (get_stock_info E s symbol) = Inr (default_info symbol ''wind_error'')"
    if "fst (ensure_connection E s) = False"
  proof -
    obtain ok s1 where e: "ensure_connection E s = (ok, s1)"
      by (cases "ensure_connection E s") auto
    with that have "ok = False" by simp
    with e show ?thesis by (simp add: get_stock_info_def)
  qed
  show ?thesis
    using a
    by (auto simp: get_stock_info_def get_stock_info_try_def default_info_def
        split: prod.splits sum.splits option.splits bool.splits)
qed

theorem stock_info_failure_placeholder_witness:
  "fst (ensure_connection refusing_env fresh_session) = False
   \<and> fst (get_stock_info refusing_env fresh_session ''000001'')
       = Inr (default_info ''000001'' ''wind_error'')
   \<and> ensure_connection live_env fresh_session
       = (True, fresh_session\<lparr>connected := True, calls := [IsConnected, Start]\<rparr>)
   \<and> fst (get_stock_info live_env fresh_session ''000001'')
       = Inr (default_info ''000001'' ''wind_error'')
   \<and> ensure_connection erroring_env fresh_session
       = (True, fresh_session\<lparr>connected := True, calls := [IsConnected, Start]\<rparr>)
   \<and> ErrorCode error_payload \<noteq> 0
   \<and> fst (get_stock_info erroring_env fresh_session ''000001'')
       = Inr (default_info ''000001'' ''wind'')"
proof -
  let ?s0 = "fresh_session\<lparr>connected := True, calls := [IsConnected, Start]\<rparr>"
  let ?query = "Wsd (normalize_symbol ''000001'')
                    ''trade_code,sec_name,province,wicsname2024,mkt,ipo_date''
                    ''2024-01-01'' ''2024-01-02'' ''''"
  have a: "fst (ensure_connection refusing_env fresh_session) = False"
    by (simp add: ensure_connection_def connect_if_needed_def remote_def refusing_env_def
        fresh_session_def)
  have b: "ensure_connection live_env fresh_session = (True, ?s0)"
    by (simp add: ensure_connection_def connect_if_needed_def remote_def live_env_def
        refusing_env_def fresh_session_def)
  have c: "fst (wind_call live_env (wsd live_env) ?query ?s0) = Inl VendorError"
    by (simp add: wind_call_def remote_def live_env_def refusing_env_def)
  have b': "ensure_connection erroring_env fresh_session = (True, ?s0)"
    by (simp add: ensure_connection_def connect_if_needed_def remote_def erroring_env_def
        live_env_def refusing_env_def fresh_session_def)
  have c': "fst (wind_call erroring_env (wsd erroring_env) ?query ?s0) = Inr error_payload"
    by (simp add: wind_call_def remote_def erroring_env_def live_env_def refusing_env_def)
  have d: "ErrorCode error_payload \<noteq> 0"
    by (simp add: error_payload_def)
  show ?thesis
    using stock_info_failure_placeholder [of refusing_env fresh_session "''000001''" ?s0 VendorError
        error_payload "''''"]
      stock_info_failure_placeholder [of live_env fresh_session "''000001''" ?s0 VendorError
        error_payload "''''"]
      stock_info_failure_placeholder [of erroring_env fresh_session "''000001''" ?s0 VendorError
        error_payload "''''"]
      a b c b' c' d
    by simp
qed

section \<open>The reshaping of daily bars\<close>




















text \<open>
  Three more payloads outside the amended claim. With a repeated field name the selection
  of the vendor column is a frame of two columns, which pandas refuses to store under one
  label, and \<open>get_stock_daily\<close> returns the empty table. With a vendor field \<open>open\<close> beside
  the vendor field \<open>OPEN\<close> the reshaping succeeds, and the values of the vendor column
  \<open>open\<close> (here 7) are replaced by those of \<open>OPEN\<close>. The values of a vendor field \<open>ts_code\<close>
  are replaced by the qualified code.
\<close>

lemma daily_table_repeated_field:
  "daily_table ''000001.SZ''
     \<lparr>ErrorCode = 0, Data = Some [[Num 1061], [Num 1061]], Fields = [''CLOSE'', ''CLOSE''],
      Times = [Date 20240628]\<rparr> = Inl ValueError"
  by (simp add: daily_table_def transposed_frame_def payload_height_def pad_column_def
      range_index_def set_index_def daily_column_mapping_def has_column_def column_labels_def
      select_columns_def setitem_def)

lemma daily_table_clash:
  "daily_table ''000001.SZ'' clash_payload
     = Inr (Some \<lparr>index_name = None, index = [Num 0],
              columns = [(''trade_date'', [Date 20240628]), (''open'', [Num 1050]),
                         (''OPEN'', [Num 1050]), (''ts_code'', [S ''000001.SZ''])]\<rparr>)"
  by (simp add: daily_table_def clash_payload_def transposed_frame_def payload_height_def
      pad_column_def range_index_def set_index_def daily_column_mapping_def has_column_def
      column_labels_def select_columns_def setitem_def setitem_scalar_def set_all_def
      reset_index_def frame_empty_def comparable_def cell_kind_def upt_rec)

lemma daily_table_vendor_ts_code:
  "daily_table ''000001.SZ''
     \<lparr>ErrorCode = 0, Data = Some [[Num 1061], [S ''1.SZ'']], Fields = [''CLOSE'', ''ts_code''],
      Times = [Date 20240628]\<rparr>
     = Inr (Some \<lparr>index_name = None, index = [Num 0],
              columns = [(''trade_date'', [Date 20240628]), (''CLOSE'', [Num 1061]),
                         (''ts_code'', [S ''000001.SZ'']), (''close'', [Num 1061])]\<rparr>)"
  by (simp add: daily_table_def transposed_frame_def payload_height_def
      pad_column_def range_index_def set_index_def daily_column_mapping_def has_column_def
      column_labels_def select_columns_def setitem_def setitem_scalar_def set_all_def
      reset_index_def frame_empty_def comparable_def cell_kind_def upt_rec)


section \<open>Keyword search\<close>

text \<open>
  For a keyword without special characters of regular expressions, and a symbol list whose
  columns \<open>name\<close>, \<open>symbol\<close> and \<open>ts_code\<close> are single columns of strings, the search keeps
  exactly the rows in which one of the three contains the keyword; for an empty symbol list
  it returns the empty table.
\<close>

lemma search_mask_plain:
  assumes "regex_plain keyword"
    and "select_columns ''name'' f = [names]" and "str_accessor_ok names"
    and "select_columns ''symbol'' f = [symbols]" and "str_accessor_ok symbols"
    and "select_columns ''ts_code'' f = [codes]" and "str_accessor_ok codes"
  shows "search_mask engine keyword f
    = Inr (map (\<lambda>t. cell_matches (sublist keyword) (fst t)
                  \<or> cell_matches (sublist keyword) (fst (snd t))
                  \<or> cell_matches (sublist keyword) (snd (snd t)))
            (zip names (zip symbols codes)))"
  using assms
  by (simp add: search_mask_def column_contains_def re_compile_def zip_map1 zip_map2
      case_prod_unfold)

lemma search_stocks_plain:
  assumes "ensure_connection E s = (True, s0)"
    and "get_stock_list E s0 = (Inr (Table stock_list), s1)"
    and "\<not> frame_empty stock_list"
    and "regex_plain keyword"
    and "select_columns ''name'' stock_list = [names]" and "str_accessor_ok names"
    and "select_columns ''symbol'' stock_list = [symbols]" and "str_accessor_ok symbols"
    and "select_columns ''ts_code'' stock_list = [codes]" and "str_accessor_ok codes"
  shows "fst (search_stocks E s keyword)
    = Inr (filter_rows
             (map (\<lambda>t. cell_matches (sublist keyword) (fst t)
                  \<or> cell_matches (sublist keyword) (fst (snd t))
                  \<or> cell_matches (sublist keyword) (snd (snd t)))
                (zip names (zip symbols codes)))
             stock_list)"
  using assms(1-3) search_mask_plain [OF assms(4-10), of "regex_engine E"]
  by (simp add: search_stocks_def search_stocks_try_def)

lemma search_stocks_empty_list:
  assumes "ensure_connection E s = (True, s0)"
    and "get_stock_list E s0 = (Inr (Table stock_list), s1)"
    and "frame_empty stock_list"
  shows "fst (search_stocks E s keyword) = Inr empty_frame"
  using assms by (simp add: search_stocks_def search_stocks_try_def)

lemma listing_connected:
  "ensure_connection listing_env fresh_session
     = (True, fresh_session\<lparr>connected := True, calls := [IsConnected, Start]\<rparr>)"
  by (simp add: ensure_connection_def connect_if_needed_def remote_def listing_env_def
        live_env_def refusing_env_def fresh_session_def)

lemma listing_reconnected:
  "ensure_connection listing_env (fresh_session\<lparr>connected := True, calls := [IsConnected, Start]\<rparr>)
     = (True, fresh_session\<lparr>connected := True, calls := [IsConnected, Start, IsConnected]\<rparr>)"
  by (simp add: ensure_connection_def connect_if_needed_def remote_def listing_env_def
        live_env_def refusing_env_def fresh_session_def)

lemma listing_table:
  "stock_list_table listing_payload
     = Inr (Some \<lparr>index_name = None, index = [Num 0, Num 1],
           columns =
             [(''WIND_CODE'', [S ''000001.SZ'', S ''600221.SH'']),
              (''SEC_NAME'', [S ''PAB'', S ''*ST HNA'']),
              (''TRADE_STATUS'', [S ''L'', S ''L'']),
              (''IPO_DATE'', [Date 19910403, Date 19991125]),
              (''PROVINCE'', [S ''Guangdong'', S ''Hainan'']),
              (''SEC_TYPE'', [S ''A'', S ''A'']),
              (''LISTING_BOARD'', [S ''Main'', S ''Main'']),
              (''EXCHANGE'', [S ''SZSE'', S ''SSE'']),
              (''ts_code'', [S ''000001.SZ'', S ''600221.SH'']),
              (''name'', [S ''PAB'', S ''*ST HNA'']),
              (''list_status'', [S ''L'', S ''L'']),
              (''list_date'', [Date 19910403, Date 19991125]),
              (''area'', [S ''Guangdong'', S ''Hainan'']),
              (''market'', [S ''A'', S ''A'']),
              (''industry'', [S ''Main'', S ''Main'']),
              (''exchange'', [S ''SZSE'', S ''SSE'']),
              (''symbol'', [S ''000001'', S ''600221''])]\<rparr>)"
  by (simp add: stock_list_table_def listing_payload_def transposed_frame_def payload_height_def
      pad_column_def range_index_def frame_empty_def stock_list_column_mapping_def
      has_column_def column_labels_def select_columns_def setitem_def set_all_def
      add_symbol_column_def str_accessor_ok_def is_S_def before_dot_def upt_rec)

lemma listing_fetched:
  "get_stock_list listing_env (fresh_session\<lparr>connected := True, calls := [IsConnected, Start]\<rparr>)
     = (Inr (Table
        \<lparr>index_name = None, index = [Num 0, Num 1],
           columns =
             [(''WIND_CODE'', [S ''000001.SZ'', S ''600221.SH'']),
              (''SEC_NAME'', [S ''PAB'', S ''*ST HNA'']),
              (''TRADE_STATUS'', [S ''L'', S ''L'']),
              (''IPO_DATE'', [Date 19910403, Date 19991125]),
              (''PROVINCE'', [S ''Guangdong'', S ''Hainan'']),
              (''SEC_TYPE'', [S ''A'', S ''A'']),
              (''LISTING_BOARD'', [S ''Main'', S ''Main'']),
              (''EXCHANGE'', [S ''SZSE'', S ''SSE'']),
              (''ts_code'', [S ''000001.SZ'', S ''600221.SH'']),
              (''name'', [S ''PAB'', S ''*ST HNA'']),
              (''list_status'', [S ''L'', S ''L'']),
              (''list_date'', [Date 19910403, Date 19991125]),
              (''area'', [S ''Guangdong'', S ''Hainan'']),
              (''market'', [S ''A'', S ''A'']),
              (''industry'', [S ''Main'', S ''Main'']),
              (''exchange'', [S ''SZSE'', S ''SSE'']),
              (''symbol'', [S ''000001'', S ''600221''])]\<rparr>),
        fresh_session\<lparr>connected := True,
          calls := [IsConnected, Start, IsConnected,
                    Wset ''listedsecuritygeneralview''
                      ''sectorid=a001010100000000;field=wind_code,sec_name,trade_status,ipo_date,province,sec_type,listing_board,exchange'']\<rparr>)"
proof -
  have w: "WIND_AVAILABLE listing_env" "wset listing_env = (\<lambda>h. Inr listing_payload)"
    by (simp_all add: listing_env_def live_env_def refusing_env_def)
  have z: "ErrorCode listing_payload = 0" by (simp add: listing_payload_def)
  show ?thesis
    by (simp add: get_stock_list_def listing_reconnected [unfolded fresh_session_def, simplified]
        get_stock_list_try_def cached_stock_list_def wind_call_def remote_def w z listing_table
        frame_empty_def save_to_cache_def fresh_session_def)
qed


text \<open>
  Claim C8. The claim has the search return the rows that contain the keyword as a
  substring. The code passes the keyword to \<open>str.contains\<close> with its default \<open>regex=True\<close>:
  the keyword \<open>*ST\<close> is not a regular expression, compiling it raises, the handler of
  \<open>search_stocks\<close> turns the exception into the empty table, and the instrument named
  \<open>*ST HNA\<close> is not found.
\<close>

theorem search_stocks_special_treatment:
  "fst (get_stock_list listing_env (fresh_session\<lparr>connected := True, calls := [IsConnected, Start]\<rparr>))
     = Inr (Table
        \<lparr>index_name = None, index = [Num 0, Num 1],
           columns =
             [(''WIND_CODE'', [S ''000001.SZ'', S ''600221.SH'']),
              (''SEC_NAME'', [S ''PAB'', S ''*ST HNA'']),
              (''TRADE_STATUS'', [S ''L'', S ''L'']),
              (''IPO_DATE'', [Date 19910403, Date 19991125]),
              (''PROVINCE'', [S ''Guangdong'', S ''Hainan'']),
              (''SEC_TYPE'', [S ''A'', S ''A'']),
              (''LISTING_BOARD'', [S ''Main'', S ''Main'']),
              (''EXCHANGE'', [S ''SZSE'', S ''SSE'']),
              (''ts_code'', [S ''000001.SZ'', S ''600221.SH'']),
              (''name'', [S ''PAB'', S ''*ST HNA'']),
              (''list_status'', [S ''L'', S ''L'']),
              (''list_date'', [Date 19910403, Date 19991125]),
              (''area'', [S ''Guangdong'', S ''Hainan'']),
              (''market'', [S ''A'', S ''A'']),
              (''industry'', [S ''Main'', S ''Main'']),
              (''exchange'', [S ''SZSE'', S ''SSE'']),
              (''symbol'', [S ''000001'', S ''600221''])]\<rparr>)
   \<and> sublist ''*ST'' ''*ST HNA''
   \<and> fst (search_stocks listing_env fresh_session ''*ST'') = Inr empty_frame"
proof -
  have r: "regex_engine listing_env = (\<lambda>p. Inl ReError)"
    by (simp add: listing_env_def live_env_def refusing_env_def)
  have "fst (search_stocks listing_env fresh_session ''*ST'') = Inr empty_frame"
    by (simp add: search_stocks_def listing_connected search_stocks_try_def listing_fetched
        frame_empty_def search_mask_def column_contains_def select_columns_def
        str_accessor_ok_def is_S_def re_compile_def regex_plain_def regex_special_def)
  then show ?thesis
    by (simp add: listing_fetched)
qed

end
